theory Spec2Isabelle
  imports Main
begin

section \<open>The onion-architecture sample: three CRUD stacks over one in-memory database\<close>

text \<open>
  The development embeds \<^verbatim>\<open>Onion Architecture/onion.py\<close>: the fake database, the three
  entities, and for each entity the repository, the service and the controller class.
  Every method is a function from the database to an outcome: the value returned or the
  exception raised, the database after the call, and the lines printed by the call.
\<close>

subsection \<open>Python objects, exceptions and effects\<close>

text \<open>
  The entity classes define no \<^verbatim>\<open>__eq__\<close>, so Python compares two entities by
  identity. An object is therefore its identity \<open>oid\<close> together with its attributes, and
  \<open>py_eq\<close> is the comparison that \<^verbatim>\<open>==\<close> performs on such objects.
\<close>

record 'a pyobject =
  oid :: nat
  attrs :: 'a

definition py_eq :: "'a pyobject \<Rightarrow> 'a pyobject \<Rightarrow> bool" where
  "py_eq a b = (oid a = oid b)"

text \<open>The only exception of the program: \<^verbatim>\<open>list.remove(x)\<close> raises
  \<^verbatim>\<open>ValueError\<close> when no element equals \<open>x\<close>.\<close>

datatype error = ValueError

text \<open>\<^verbatim>\<open>xs.remove(x)\<close>: delete the first element equal to \<open>x\<close>, or raise.\<close>

fun list_remove :: "'a pyobject \<Rightarrow> 'a pyobject list \<Rightarrow> error + 'a pyobject list" where
  "list_remove x [] = Inl ValueError"
| "list_remove x (y # ys) =
     (if py_eq y x then Inr ys
      else (case list_remove x ys of Inl e \<Rightarrow> Inl e | Inr zs \<Rightarrow> Inr (y # zs)))"

subsection \<open>Entities and the fake database\<close>

text \<open>
  The three entity classes, with the attributes their constructors set. The ids are
  Python integers, as in the main program, compared by \<^verbatim>\<open>==\<close>. No method of the
  repositories, services or controllers assigns to an attribute, so the attributes of a
  stored object are those it was added with.
\<close>

record Student =
  student_id :: int
  name :: string
  email :: string

record Course =
  course_id :: int
  title :: string
  trainer_id :: int

record Trainer =
  trainer_id :: int
  name :: string
  expertise :: string

record Database =
  students :: "Student pyobject list"
  courses :: "Course pyobject list"
  trainers :: "Trainer pyobject list"

text \<open>\<^verbatim>\<open>Database.__init__\<close>: three empty lists.\<close>

definition Database_init :: Database where
  "Database_init = \<lparr>students = [], courses = [], trainers = []\<rparr>"

text \<open>
  A method call runs on the database and yields the returned value (\<open>Inr\<close>) or the raised
  exception (\<open>Inl\<close>), the database afterwards and the printed lines. A method without a
  \<^verbatim>\<open>return\<close> statement returns \<^verbatim>\<open>None\<close>, the value \<open>()\<close>.
\<close>

type_synonym 'a op = "Database \<Rightarrow> (error + 'a) \<times> Database \<times> string list"

definition result_of :: "(error + 'a) \<times> Database \<times> string list \<Rightarrow> error + 'a" where
  "result_of r = fst r"

definition db_of :: "(error + 'a) \<times> Database \<times> string list \<Rightarrow> Database" where
  "db_of r = fst (snd r)"

definition output_of :: "(error + 'a) \<times> Database \<times> string list \<Rightarrow> string list" where
  "output_of r = snd (snd r)"

definition ret :: "'a \<Rightarrow> 'a op" where
  "ret x db = (Inr x, db, [])"

definition raise :: "error \<Rightarrow> 'a op" where
  "raise e db = (Inl e, db, [])"

definition print :: "string \<Rightarrow> unit op" where
  "print line db = (Inr (), db, [line])"

definition read_db :: "(Database \<Rightarrow> 'a) \<Rightarrow> 'a op" where
  "read_db f db = (Inr (f db), db, [])"

definition write_db :: "(Database \<Rightarrow> Database) \<Rightarrow> unit op" where
  "write_db f db = (Inr (), f db, [])"

text \<open>Sequencing of two statements: an exception of the first skips the second.\<close>

definition then_do :: "'a op \<Rightarrow> ('a \<Rightarrow> 'b op) \<Rightarrow> 'b op" where
  "then_do m f db =
     (case m db of
        (Inl e, db1, out1) \<Rightarrow> (Inl e, db1, out1)
      | (Inr x, db1, out1) \<Rightarrow>
          (case f x db1 of (r, db2, out2) \<Rightarrow> (r, db2, out1 @ out2)))"

subsection \<open>Infrastructure layer: the repositories\<close>

definition StudentRepository_add_student :: "Student pyobject \<Rightarrow> unit op" where
  "StudentRepository_add_student student =
     then_do (print ''[Repository] Adding student to database'') (\<lambda>_.
       write_db (\<lambda>db. db\<lparr>students := students db @ [student]\<rparr>))"

definition StudentRepository_remove_student :: "Student pyobject \<Rightarrow> unit op" where
  "StudentRepository_remove_student student =
     then_do (print ''[Repository] Removing student from database'') (\<lambda>_.
     then_do (read_db students) (\<lambda>xs.
       case list_remove student xs of
         Inl e \<Rightarrow> raise e
       | Inr ys \<Rightarrow> write_db (\<lambda>db. db\<lparr>students := ys\<rparr>)))"

definition StudentRepository_update_student :: "Student pyobject \<Rightarrow> Student pyobject op" where
  "StudentRepository_update_student student =
     then_do (print ''[Repository] Updating student in database (demo only)'') (\<lambda>_.
       ret student)"

definition StudentRepository_get_all_students :: "Student pyobject list op" where
  "StudentRepository_get_all_students =
     then_do (print ''[Repository] Fetching all students from database'') (\<lambda>_.
       read_db students)"

definition CourseRepository_add_course :: "Course pyobject \<Rightarrow> unit op" where
  "CourseRepository_add_course course =
     then_do (print ''[Repository] Adding course to database'') (\<lambda>_.
       write_db (\<lambda>db. db\<lparr>courses := courses db @ [course]\<rparr>))"

definition CourseRepository_remove_course :: "Course pyobject \<Rightarrow> unit op" where
  "CourseRepository_remove_course course =
     then_do (print ''[Repository] Removing course from database'') (\<lambda>_.
     then_do (read_db courses) (\<lambda>xs.
       case list_remove course xs of
         Inl e \<Rightarrow> raise e
       | Inr ys \<Rightarrow> write_db (\<lambda>db. db\<lparr>courses := ys\<rparr>)))"

definition CourseRepository_update_course :: "Course pyobject \<Rightarrow> Course pyobject op" where
  "CourseRepository_update_course course =
     then_do (print ''[Repository] Updating course in database (demo only)'') (\<lambda>_.
       ret course)"

definition CourseRepository_get_all_courses :: "Course pyobject list op" where
  "CourseRepository_get_all_courses =
     then_do (print ''[Repository] Fetching all courses from database'') (\<lambda>_.
       read_db courses)"

definition TrainerRepository_add_trainer :: "Trainer pyobject \<Rightarrow> unit op" where
  "TrainerRepository_add_trainer trainer =
     then_do (print ''[Repository] Adding trainer to database'') (\<lambda>_.
       write_db (\<lambda>db. db\<lparr>trainers := trainers db @ [trainer]\<rparr>))"

definition TrainerRepository_remove_trainer :: "Trainer pyobject \<Rightarrow> unit op" where
  "TrainerRepository_remove_trainer trainer =
     then_do (print ''[Repository] Removing trainer from database'') (\<lambda>_.
     then_do (read_db trainers) (\<lambda>xs.
       case list_remove trainer xs of
         Inl e \<Rightarrow> raise e
       | Inr ys \<Rightarrow> write_db (\<lambda>db. db\<lparr>trainers := ys\<rparr>)))"

definition TrainerRepository_update_trainer :: "Trainer pyobject \<Rightarrow> Trainer pyobject op" where
  "TrainerRepository_update_trainer trainer =
     then_do (print ''[Repository] Updating trainer in database (demo only)'') (\<lambda>_.
       ret trainer)"

definition TrainerRepository_get_all_trainers :: "Trainer pyobject list op" where
  "TrainerRepository_get_all_trainers =
     then_do (print ''[Repository] Fetching all trainers from database'') (\<lambda>_.
       read_db trainers)"

subsection \<open>Service layer\<close>

text \<open>
  The loop of \<^verbatim>\<open>StudentService.add_student\<close> over the list that the repository
  returned: \<open>True\<close> when some existing student has the id of the new one, which is where
  the method prints its error line and returns.
\<close>

fun student_id_exists :: "Student pyobject list \<Rightarrow> Student pyobject \<Rightarrow> bool" where
  "student_id_exists [] student = False"
| "student_id_exists (existing # rest) student =
     (if student_id (attrs existing) = student_id (attrs student) then True
      else student_id_exists rest student)"

definition StudentService_add_student :: "Student pyobject \<Rightarrow> unit op" where
  "StudentService_add_student student =
     then_do (print ''[Service] Checking if student can be added'') (\<lambda>_.
     then_do StudentRepository_get_all_students (\<lambda>all_students.
       if student_id_exists all_students student
       then print ''[Service] Error: Student ID already exists.''
       else then_do (StudentRepository_add_student student) (\<lambda>_.
              print ''[Service] Student added successfully.'')))"

definition StudentService_remove_student :: "Student pyobject \<Rightarrow> unit op" where
  "StudentService_remove_student student =
     then_do (print ''[Service] Removing student'') (\<lambda>_.
       StudentRepository_remove_student student)"

definition StudentService_update_student :: "Student pyobject \<Rightarrow> Student pyobject op" where
  "StudentService_update_student student =
     then_do (print ''[Service] Updating student'') (\<lambda>_.
       StudentRepository_update_student student)"

definition StudentService_get_all_students :: "Student pyobject list op" where
  "StudentService_get_all_students =
     then_do (print ''[Service] Retrieving all students'') (\<lambda>_.
       StudentRepository_get_all_students)"

definition CourseService_add_course :: "Course pyobject \<Rightarrow> unit op" where
  "CourseService_add_course course =
     then_do (print ''[Service] Adding course'') (\<lambda>_.
       CourseRepository_add_course course)"

definition CourseService_remove_course :: "Course pyobject \<Rightarrow> unit op" where
  "CourseService_remove_course course =
     then_do (print ''[Service] Removing course'') (\<lambda>_.
       CourseRepository_remove_course course)"

definition CourseService_update_course :: "Course pyobject \<Rightarrow> Course pyobject op" where
  "CourseService_update_course course =
     then_do (print ''[Service] Updating course'') (\<lambda>_.
       CourseRepository_update_course course)"

definition CourseService_get_all_courses :: "Course pyobject list op" where
  "CourseService_get_all_courses =
     then_do (print ''[Service] Retrieving all courses'') (\<lambda>_.
       CourseRepository_get_all_courses)"

definition TrainerService_add_trainer :: "Trainer pyobject \<Rightarrow> unit op" where
  "TrainerService_add_trainer trainer =
     then_do (print ''[Service] Adding trainer'') (\<lambda>_.
       TrainerRepository_add_trainer trainer)"

definition TrainerService_remove_trainer :: "Trainer pyobject \<Rightarrow> unit op" where
  "TrainerService_remove_trainer trainer =
     then_do (print ''[Service] Removing trainer'') (\<lambda>_.
       TrainerRepository_remove_trainer trainer)"

definition TrainerService_update_trainer :: "Trainer pyobject \<Rightarrow> Trainer pyobject op" where
  "TrainerService_update_trainer trainer =
     then_do (print ''[Service] Updating trainer'') (\<lambda>_.
       TrainerRepository_update_trainer trainer)"

definition TrainerService_get_all_trainers :: "Trainer pyobject list op" where
  "TrainerService_get_all_trainers =
     then_do (print ''[Service] Retrieving all trainers'') (\<lambda>_.
       TrainerRepository_get_all_trainers)"

subsection \<open>Presentation layer: the controllers\<close>

text \<open>
  \<^verbatim>\<open>add_*\<close> and \<^verbatim>\<open>remove_*\<close> call the service and drop what it returns;
  \<^verbatim>\<open>update_*\<close> and \<^verbatim>\<open>get_all_*\<close> return it.
\<close>

definition StudentController_add_student :: "Student pyobject \<Rightarrow> unit op" where
  "StudentController_add_student student =
     then_do (print ''[Controller] Request received to add student'') (\<lambda>_.
     then_do (StudentService_add_student student) (\<lambda>_. ret ()))"

definition StudentController_remove_student :: "Student pyobject \<Rightarrow> unit op" where
  "StudentController_remove_student student =
     then_do (print ''[Controller] Request received to remove student'') (\<lambda>_.
     then_do (StudentService_remove_student student) (\<lambda>_. ret ()))"

definition StudentController_update_student :: "Student pyobject \<Rightarrow> Student pyobject op" where
  "StudentController_update_student student =
     then_do (print ''[Controller] Request received to update student'') (\<lambda>_.
       StudentService_update_student student)"

definition StudentController_get_all_students :: "Student pyobject list op" where
  "StudentController_get_all_students =
     then_do (print ''[Controller] Request received to list students'') (\<lambda>_.
       StudentService_get_all_students)"

definition CourseController_add_course :: "Course pyobject \<Rightarrow> unit op" where
  "CourseController_add_course course =
     then_do (print ''[Controller] Request received to add course'') (\<lambda>_.
     then_do (CourseService_add_course course) (\<lambda>_. ret ()))"

definition CourseController_remove_course :: "Course pyobject \<Rightarrow> unit op" where
  "CourseController_remove_course course =
     then_do (print ''[Controller] Request received to remove course'') (\<lambda>_.
     then_do (CourseService_remove_course course) (\<lambda>_. ret ()))"

definition CourseController_update_course :: "Course pyobject \<Rightarrow> Course pyobject op" where
  "CourseController_update_course course =
     then_do (print ''[Controller] Request received to update course'') (\<lambda>_.
       CourseService_update_course course)"

definition CourseController_get_all_courses :: "Course pyobject list op" where
  "CourseController_get_all_courses =
     then_do (print ''[Controller] Request received to list courses'') (\<lambda>_.
       CourseService_get_all_courses)"

definition TrainerController_add_trainer :: "Trainer pyobject \<Rightarrow> unit op" where
  "TrainerController_add_trainer trainer =
     then_do (print ''[Controller] Request received to add trainer'') (\<lambda>_.
     then_do (TrainerService_add_trainer trainer) (\<lambda>_. ret ()))"

definition TrainerController_remove_trainer :: "Trainer pyobject \<Rightarrow> unit op" where
  "TrainerController_remove_trainer trainer =
     then_do (print ''[Controller] Request received to remove trainer'') (\<lambda>_.
     then_do (TrainerService_remove_trainer trainer) (\<lambda>_. ret ()))"

definition TrainerController_update_trainer :: "Trainer pyobject \<Rightarrow> Trainer pyobject op" where
  "TrainerController_update_trainer trainer =
     then_do (print ''[Controller] Request received to update trainer'') (\<lambda>_.
       TrainerService_update_trainer trainer)"

definition TrainerController_get_all_trainers :: "Trainer pyobject list op" where
  "TrainerController_get_all_trainers =
     then_do (print ''[Controller] Request received to list trainers'') (\<lambda>_.
       TrainerService_get_all_trainers)"

subsection \<open>Callers: sequences of calls and the objects of the main program\<close>

text \<open>
  A caller that adds the entities of a list one after the other, as the main program does
  with its controllers: \<^verbatim>\<open>for s in ss: student_controller.add_student(s)\<close>.
\<close>

fun add_students_via_service :: "Student pyobject list \<Rightarrow> unit op" where
  "add_students_via_service [] = ret ()"
| "add_students_via_service (s # ss) =
     then_do (StudentService_add_student s) (\<lambda>_. add_students_via_service ss)"

fun add_students_via_controller :: "Student pyobject list \<Rightarrow> unit op" where
  "add_students_via_controller [] = ret ()"
| "add_students_via_controller (s # ss) =
     then_do (StudentController_add_student s) (\<lambda>_. add_students_via_controller ss)"

fun add_courses_via_controller :: "Course pyobject list \<Rightarrow> unit op" where
  "add_courses_via_controller [] = ret ()"
| "add_courses_via_controller (c # cs) =
     then_do (CourseController_add_course c) (\<lambda>_. add_courses_via_controller cs)"

fun add_trainers_via_controller :: "Trainer pyobject list \<Rightarrow> unit op" where
  "add_trainers_via_controller [] = ret ()"
| "add_trainers_via_controller (t # ts) =
     then_do (TrainerController_add_trainer t) (\<lambda>_. add_trainers_via_controller ts)"

text \<open>The ids of the stored students, in list order.\<close>

definition student_ids :: "Database \<Rightarrow> int list" where
  "student_ids db = map (\<lambda>s. student_id (attrs s)) (students db)"

text \<open>
  The students of a sequence of adds that are added successfully, when the ids \<open>seen\<close>
  are stored already: a student is added when its id is not stored and was not added
  earlier in the sequence.
\<close>

fun successfully_added :: "int list \<Rightarrow> Student pyobject list \<Rightarrow> Student pyobject list" where
  "successfully_added seen [] = []"
| "successfully_added seen (s # ss) =
     (if student_id (attrs s) \<in> set seen then successfully_added seen ss
      else s # successfully_added (seen @ [student_id (attrs s)]) ss)"

text \<open>The objects that the main program creates, each with an identity of its own.\<close>

definition trainer1 :: "Trainer pyobject" where
  "trainer1 = \<lparr>oid = 1, attrs = \<lparr>trainer_id = 1, name = ''Mondol'', expertise = ''Python''\<rparr>\<rparr>"

definition trainer2 :: "Trainer pyobject" where
  "trainer2 = \<lparr>oid = 2, attrs = \<lparr>trainer_id = 2, name = ''Ali'', expertise = ''Data Science''\<rparr>\<rparr>"

definition course1 :: "Course pyobject" where
  "course1 = \<lparr>oid = 3, attrs = \<lparr>course_id = 1, title = ''Python Basics'', trainer_id = 1\<rparr>\<rparr>"

definition course2 :: "Course pyobject" where
  "course2 = \<lparr>oid = 4, attrs = \<lparr>course_id = 2, title = ''Machine Learning'', trainer_id = 2\<rparr>\<rparr>"

definition student1 :: "Student pyobject" where
  "student1 =
    \<lparr>oid = 5, attrs = \<lparr>student_id = 1, name = ''Rashed'', email = ''rashed@example.com''\<rparr>\<rparr>"

definition student2 :: "Student pyobject" where
  "student2 = \<lparr>oid = 6, attrs = \<lparr>student_id = 2, name = ''Shuvo'', email = ''shuvo@example.com''\<rparr>\<rparr>"

definition student3 :: "Student pyobject" where
  "student3 = \<lparr>oid = 7,
     attrs = \<lparr>student_id = 1, name = ''DuplicateRashed'', email = ''duplicate@example.com''\<rparr>\<rparr>"

text \<open>
  The database of the main program after its two trainers, two courses and the first two
  students are stored, which is where it adds \<open>student3\<close> with the id of \<open>student1\<close>.
\<close>

definition main_db :: Database where
  "main_db = \<lparr>students = [student1, student2], courses = [course1, course2],
     trainers = [trainer1, trainer2]\<rparr>"

section \<open>Outcomes of the methods\<close>

lemmas op_defs = ret_def raise_def print_def read_db_def write_db_def then_do_def
  result_of_def db_of_def output_of_def

lemma result_of_triple [simp]: "result_of (r, db, out) = r"
  by (simp add: result_of_def)

lemma db_of_triple [simp]: "db_of (r, db, out) = db"
  by (simp add: db_of_def)

lemma output_of_triple [simp]: "output_of (r, db, out) = out"
  by (simp add: output_of_def)

text \<open>A method that prints a line and then delegates.\<close>

lemma print_then:
  "then_do (print l) (\<lambda>_. m) db = (result_of (m db), db_of (m db), l # output_of (m db))"
  by (simp add: op_defs split: prod.splits)

lemma then_ret: "then_do m ret = m"
  by (rule ext) (simp add: op_defs split: prod.splits sum.splits)

subsection \<open>Repositories\<close>

lemma StudentRepository_add_student_outcome:
  "StudentRepository_add_student s db =
     (Inr (), db\<lparr>students := students db @ [s]\<rparr>, [''[Repository] Adding student to database''])"
  by (simp add: StudentRepository_add_student_def op_defs)

lemma StudentRepository_remove_student_outcome:
  "StudentRepository_remove_student s db =
     (case list_remove s (students db) of
        Inl e \<Rightarrow> (Inl e, db, [''[Repository] Removing student from database''])
      | Inr ys \<Rightarrow> (Inr (), db\<lparr>students := ys\<rparr>, [''[Repository] Removing student from database'']))"
  by (simp add: StudentRepository_remove_student_def op_defs split: sum.splits)

lemma StudentRepository_update_student_outcome:
  "StudentRepository_update_student s db =
     (Inr s, db, [''[Repository] Updating student in database (demo only)''])"
  by (simp add: StudentRepository_update_student_def op_defs)

lemma StudentRepository_get_all_students_outcome:
  "StudentRepository_get_all_students db =
     (Inr (students db), db, [''[Repository] Fetching all students from database''])"
  by (simp add: StudentRepository_get_all_students_def op_defs)

lemma CourseRepository_add_course_outcome:
  "CourseRepository_add_course c db =
     (Inr (), db\<lparr>courses := courses db @ [c]\<rparr>, [''[Repository] Adding course to database''])"
  by (simp add: CourseRepository_add_course_def op_defs)

lemma CourseRepository_remove_course_outcome:
  "CourseRepository_remove_course c db =
     (case list_remove c (courses db) of
        Inl e \<Rightarrow> (Inl e, db, [''[Repository] Removing course from database''])
      | Inr ys \<Rightarrow> (Inr (), db\<lparr>courses := ys\<rparr>, [''[Repository] Removing course from database'']))"
  by (simp add: CourseRepository_remove_course_def op_defs split: sum.splits)

lemma CourseRepository_update_course_outcome:
  "CourseRepository_update_course c db =
     (Inr c, db, [''[Repository] Updating course in database (demo only)''])"
  by (simp add: CourseRepository_update_course_def op_defs)

lemma CourseRepository_get_all_courses_outcome:
  "CourseRepository_get_all_courses db =
     (Inr (courses db), db, [''[Repository] Fetching all courses from database''])"
  by (simp add: CourseRepository_get_all_courses_def op_defs)

lemma TrainerRepository_add_trainer_outcome:
  "TrainerRepository_add_trainer t db =
     (Inr (), db\<lparr>trainers := trainers db @ [t]\<rparr>, [''[Repository] Adding trainer to database''])"
  by (simp add: TrainerRepository_add_trainer_def op_defs)

lemma TrainerRepository_remove_trainer_outcome:
  "TrainerRepository_remove_trainer t db =
     (case list_remove t (trainers db) of
        Inl e \<Rightarrow> (Inl e, db, [''[Repository] Removing trainer from database''])
      | Inr ys \<Rightarrow> (Inr (), db\<lparr>trainers := ys\<rparr>, [''[Repository] Removing trainer from database'']))"
  by (simp add: TrainerRepository_remove_trainer_def op_defs split: sum.splits)

lemma TrainerRepository_update_trainer_outcome:
  "TrainerRepository_update_trainer t db =
     (Inr t, db, [''[Repository] Updating trainer in database (demo only)''])"
  by (simp add: TrainerRepository_update_trainer_def op_defs)

lemma TrainerRepository_get_all_trainers_outcome:
  "TrainerRepository_get_all_trainers db =
     (Inr (trainers db), db, [''[Repository] Fetching all trainers from database''])"
  by (simp add: TrainerRepository_get_all_trainers_def op_defs)

subsection \<open>Services\<close>

lemma student_id_exists_iff:
  "student_id_exists xs s \<longleftrightarrow> student_id (attrs s) \<in> set (map (\<lambda>x. student_id (attrs x)) xs)"
  by (induction xs) auto

lemma StudentService_add_student_outcome:
  "StudentService_add_student s db =
     (if student_id_exists (students db) s
      then (Inr (), db,
            [''[Service] Checking if student can be added'',
             ''[Repository] Fetching all students from database'',
             ''[Service] Error: Student ID already exists.''])
      else (Inr (), db\<lparr>students := students db @ [s]\<rparr>,
            [''[Service] Checking if student can be added'',
             ''[Repository] Fetching all students from database'',
             ''[Repository] Adding student to database'',
             ''[Service] Student added successfully.'']))"
  by (simp add: StudentService_add_student_def StudentRepository_add_student_outcome
      StudentRepository_get_all_students_outcome op_defs)

lemma StudentService_remove_student_outcome:
  "StudentService_remove_student s db =
     (result_of (StudentRepository_remove_student s db),
      db_of (StudentRepository_remove_student s db),
      ''[Service] Removing student'' # output_of (StudentRepository_remove_student s db))"
  by (simp add: StudentService_remove_student_def print_then)

lemma StudentService_update_student_outcome:
  "StudentService_update_student s db =
     (Inr s, db,
      [''[Service] Updating student'',
       ''[Repository] Updating student in database (demo only)''])"
  by (simp add: StudentService_update_student_def print_then
      StudentRepository_update_student_outcome)

lemma StudentService_get_all_students_outcome:
  "StudentService_get_all_students db =
     (Inr (students db), db,
      [''[Service] Retrieving all students'',
       ''[Repository] Fetching all students from database''])"
  by (simp add: StudentService_get_all_students_def print_then
      StudentRepository_get_all_students_outcome)

lemma CourseService_add_course_outcome:
  "CourseService_add_course c db =
     (Inr (), db\<lparr>courses := courses db @ [c]\<rparr>,
      [''[Service] Adding course'', ''[Repository] Adding course to database''])"
  by (simp add: CourseService_add_course_def print_then CourseRepository_add_course_outcome)

lemma CourseService_remove_course_outcome:
  "CourseService_remove_course c db =
     (result_of (CourseRepository_remove_course c db),
      db_of (CourseRepository_remove_course c db),
      ''[Service] Removing course'' # output_of (CourseRepository_remove_course c db))"
  by (simp add: CourseService_remove_course_def print_then)

lemma CourseService_update_course_outcome:
  "CourseService_update_course c db =
     (Inr c, db,
      [''[Service] Updating course'', ''[Repository] Updating course in database (demo only)''])"
  by (simp add: CourseService_update_course_def print_then CourseRepository_update_course_outcome)

lemma CourseService_get_all_courses_outcome:
  "CourseService_get_all_courses db =
     (Inr (courses db), db,
      [''[Service] Retrieving all courses'',
       ''[Repository] Fetching all courses from database''])"
  by (simp add: CourseService_get_all_courses_def print_then
      CourseRepository_get_all_courses_outcome)

lemma TrainerService_add_trainer_outcome:
  "TrainerService_add_trainer t db =
     (Inr (), db\<lparr>trainers := trainers db @ [t]\<rparr>,
      [''[Service] Adding trainer'', ''[Repository] Adding trainer to database''])"
  by (simp add: TrainerService_add_trainer_def print_then TrainerRepository_add_trainer_outcome)

lemma TrainerService_remove_trainer_outcome:
  "TrainerService_remove_trainer t db =
     (result_of (TrainerRepository_remove_trainer t db),
      db_of (TrainerRepository_remove_trainer t db),
      ''[Service] Removing trainer'' # output_of (TrainerRepository_remove_trainer t db))"
  by (simp add: TrainerService_remove_trainer_def print_then)

lemma TrainerService_update_trainer_outcome:
  "TrainerService_update_trainer t db =
     (Inr t, db,
      [''[Service] Updating trainer'',
       ''[Repository] Updating trainer in database (demo only)''])"
  by (simp add: TrainerService_update_trainer_def print_then
      TrainerRepository_update_trainer_outcome)

lemma TrainerService_get_all_trainers_outcome:
  "TrainerService_get_all_trainers db =
     (Inr (trainers db), db,
      [''[Service] Retrieving all trainers'',
       ''[Repository] Fetching all trainers from database''])"
  by (simp add: TrainerService_get_all_trainers_def print_then
      TrainerRepository_get_all_trainers_outcome)

subsection \<open>Controllers\<close>

text \<open>Each controller method prints its line and has the outcome of the service method.\<close>

lemma StudentController_add_student_outcome:
  "StudentController_add_student s db =
     (result_of (StudentService_add_student s db), db_of (StudentService_add_student s db),
      ''[Controller] Request received to add student'' #
        output_of (StudentService_add_student s db))"
  by (simp add: StudentController_add_student_def print_then then_ret)

lemma StudentController_remove_student_outcome:
  "StudentController_remove_student s db =
     (result_of (StudentService_remove_student s db), db_of (StudentService_remove_student s db),
      ''[Controller] Request received to remove student'' #
        output_of (StudentService_remove_student s db))"
  by (simp add: StudentController_remove_student_def print_then then_ret)

lemma StudentController_update_student_outcome:
  "StudentController_update_student s db =
     (result_of (StudentService_update_student s db), db_of (StudentService_update_student s db),
      ''[Controller] Request received to update student'' #
        output_of (StudentService_update_student s db))"
  by (simp add: StudentController_update_student_def print_then then_ret)

lemma StudentController_get_all_students_outcome:
  "StudentController_get_all_students db =
     (result_of (StudentService_get_all_students db), db_of (StudentService_get_all_students db),
      ''[Controller] Request received to list students'' #
        output_of (StudentService_get_all_students db))"
  by (simp add: StudentController_get_all_students_def print_then then_ret)

lemma CourseController_add_course_outcome:
  "CourseController_add_course c db =
     (result_of (CourseService_add_course c db), db_of (CourseService_add_course c db),
      ''[Controller] Request received to add course'' #
        output_of (CourseService_add_course c db))"
  by (simp add: CourseController_add_course_def print_then then_ret)

lemma CourseController_remove_course_outcome:
  "CourseController_remove_course c db =
     (result_of (CourseService_remove_course c db), db_of (CourseService_remove_course c db),
      ''[Controller] Request received to remove course'' #
        output_of (CourseService_remove_course c db))"
  by (simp add: CourseController_remove_course_def print_then then_ret)

lemma CourseController_update_course_outcome:
  "CourseController_update_course c db =
     (result_of (CourseService_update_course c db), db_of (CourseService_update_course c db),
      ''[Controller] Request received to update course'' #
        output_of (CourseService_update_course c db))"
  by (simp add: CourseController_update_course_def print_then then_ret)

lemma CourseController_get_all_courses_outcome:
  "CourseController_get_all_courses db =
     (result_of (CourseService_get_all_courses db), db_of (CourseService_get_all_courses db),
      ''[Controller] Request received to list courses'' #
        output_of (CourseService_get_all_courses db))"
  by (simp add: CourseController_get_all_courses_def print_then then_ret)

lemma TrainerController_add_trainer_outcome:
  "TrainerController_add_trainer t db =
     (result_of (TrainerService_add_trainer t db), db_of (TrainerService_add_trainer t db),
      ''[Controller] Request received to add trainer'' #
        output_of (TrainerService_add_trainer t db))"
  by (simp add: TrainerController_add_trainer_def print_then then_ret)

lemma TrainerController_remove_trainer_outcome:
  "TrainerController_remove_trainer t db =
     (result_of (TrainerService_remove_trainer t db), db_of (TrainerService_remove_trainer t db),
      ''[Controller] Request received to remove trainer'' #
        output_of (TrainerService_remove_trainer t db))"
  by (simp add: TrainerController_remove_trainer_def print_then then_ret)

lemma TrainerController_update_trainer_outcome:
  "TrainerController_update_trainer t db =
     (result_of (TrainerService_update_trainer t db), db_of (TrainerService_update_trainer t db),
      ''[Controller] Request received to update trainer'' #
        output_of (TrainerService_update_trainer t db))"
  by (simp add: TrainerController_update_trainer_def print_then then_ret)

lemma TrainerController_get_all_trainers_outcome:
  "TrainerController_get_all_trainers db =
     (result_of (TrainerService_get_all_trainers db), db_of (TrainerService_get_all_trainers db),
      ''[Controller] Request received to list trainers'' #
        output_of (TrainerService_get_all_trainers db))"
  by (simp add: TrainerController_get_all_trainers_def print_then then_ret)

section \<open>Facts about \<open>list_remove\<close> and about sequences of adds\<close>

lemma list_remove_absent:
  "\<forall>y\<in>set xs. \<not> py_eq y x \<Longrightarrow> list_remove x xs = Inl ValueError"
  by (induction xs) auto

lemma list_remove_raises:
  "list_remove x xs = Inl e \<Longrightarrow> \<forall>y\<in>set xs. \<not> py_eq y x"
  by (induction xs) (auto split: sum.splits if_splits)

lemma list_remove_first:
  "list_remove x xs = Inr ys \<Longrightarrow>
     \<exists>pre y post. xs = pre @ y # post \<and> py_eq y x \<and> (\<forall>z\<in>set pre. \<not> py_eq z x) \<and>
       ys = pre @ post"
proof (induction xs arbitrary: ys)
  case Nil
  then show ?case by simp
next
  case (Cons a xs)
  show ?case
  proof (cases "py_eq a x")
    case True
    with Cons.prems have "ys = xs" by simp
    with True have "a # xs = [] @ a # xs \<and> py_eq a x \<and> (\<forall>z\<in>set []. \<not> py_eq z x) \<and>
        ys = [] @ xs"
      by simp
    then show ?thesis by blast
  next
    case False
    with Cons.prems obtain zs where zs: "list_remove x xs = Inr zs" "ys = a # zs"
      by (auto split: sum.splits)
    from Cons.IH [OF zs(1)] obtain pre y post where
      "xs = pre @ y # post" "py_eq y x" "\<forall>z\<in>set pre. \<not> py_eq z x" "zs = pre @ post"
      by blast
    with False zs(2) have "a # xs = (a # pre) @ y # post \<and> py_eq y x \<and>
        (\<forall>z\<in>set (a # pre). \<not> py_eq z x) \<and> ys = (a # pre) @ post"
      by simp
    then show ?thesis by blast
  qed
qed

text \<open>When the first statement returns, the second runs on the database it left.\<close>

lemma then_do_db:
  "result_of (m db) = Inr x \<Longrightarrow> db_of (then_do m f db) = db_of (f x (db_of (m db)))"
  by (cases "m db") (auto simp: op_defs split: prod.splits sum.splits)

lemma StudentService_add_student_result:
  "result_of (StudentService_add_student s db) = Inr ()"
  by (simp add: StudentService_add_student_outcome)

lemma StudentController_add_student_result:
  "result_of (StudentController_add_student s db) = Inr ()"
  by (simp add: StudentController_add_student_outcome StudentService_add_student_result)

lemma StudentService_add_student_ids:
  "student_ids (db_of (StudentService_add_student s db)) =
     (if student_id (attrs s) \<in> set (student_ids db) then student_ids db
      else student_ids db @ [student_id (attrs s)])"
  by (simp add: StudentService_add_student_outcome student_id_exists_iff student_ids_def)

lemma StudentService_add_student_distinct:
  "distinct (student_ids db) \<Longrightarrow> distinct (student_ids (db_of (StudentService_add_student s db)))"
  by (simp add: StudentService_add_student_ids)

lemma StudentController_add_student_db:
  "db_of (StudentController_add_student s db) = db_of (StudentService_add_student s db)"
  by (simp add: StudentController_add_student_outcome)

lemma add_students_via_service_step:
  "db_of (add_students_via_service (s # ss) db) =
     db_of (add_students_via_service ss (db_of (StudentService_add_student s db)))"
  by (simp add: then_do_db [OF StudentService_add_student_result])

lemma add_students_via_controller_step:
  "db_of (add_students_via_controller (s # ss) db) =
     db_of (add_students_via_controller ss (db_of (StudentService_add_student s db)))"
  by (simp add: then_do_db [OF StudentController_add_student_result]
      StudentController_add_student_db)

lemma add_students_via_service_distinct:
  "distinct (student_ids db) \<Longrightarrow>
     distinct (student_ids (db_of (add_students_via_service ss db)))"
proof (induction ss arbitrary: db)
  case Nil
  then show ?case by (simp add: ret_def)
next
  case (Cons s ss)
  from Cons.prems have "distinct (student_ids (db_of (StudentService_add_student s db)))"
    by (rule StudentService_add_student_distinct)
  then show ?case
    unfolding add_students_via_service_step by (rule Cons.IH)
qed

lemma add_students_via_controller_distinct:
  "distinct (student_ids db) \<Longrightarrow>
     distinct (student_ids (db_of (add_students_via_controller ss db)))"
proof (induction ss arbitrary: db)
  case Nil
  then show ?case by (simp add: ret_def)
next
  case (Cons s ss)
  from Cons.prems have "distinct (student_ids (db_of (StudentService_add_student s db)))"
    by (rule StudentService_add_student_distinct)
  then show ?case
    unfolding add_students_via_controller_step by (rule Cons.IH)
qed

lemma add_students_via_controller_students:
  "students (db_of (add_students_via_controller ss db)) =
     students db @ successfully_added (student_ids db) ss"
proof (induction ss arbitrary: db)
  case Nil
  then show ?case by (simp add: ret_def)
next
  case (Cons s ss)
  show ?case
    unfolding add_students_via_controller_step Cons.IH
    by (simp add: StudentService_add_student_ids)
      (simp add: StudentService_add_student_outcome student_id_exists_iff student_ids_def)
qed

lemma successfully_added_all:
  "distinct (map (\<lambda>s. student_id (attrs s)) ss) \<Longrightarrow>
   set seen \<inter> set (map (\<lambda>s. student_id (attrs s)) ss) = {} \<Longrightarrow>
   successfully_added seen ss = ss"
  by (induction ss arbitrary: seen) auto

lemma add_courses_via_controller_courses:
  "courses (db_of (add_courses_via_controller cs db)) = courses db @ cs"
proof (induction cs arbitrary: db)
  case Nil
  then show ?case by (simp add: ret_def)
next
  case (Cons c cs)
  have "result_of (CourseController_add_course c db) = Inr ()"
    by (simp add: CourseController_add_course_outcome CourseService_add_course_outcome)
  then show ?case
    by (simp add: then_do_db Cons.IH CourseController_add_course_outcome
        CourseService_add_course_outcome)
qed

lemma add_trainers_via_controller_trainers:
  "trainers (db_of (add_trainers_via_controller ts db)) = trainers db @ ts"
proof (induction ts arbitrary: db)
  case Nil
  then show ?case by (simp add: ret_def)
next
  case (Cons t ts)
  have "result_of (TrainerController_add_trainer t db) = Inr ()"
    by (simp add: TrainerController_add_trainer_outcome TrainerService_add_trainer_outcome)
  then show ?case
    by (simp add: then_do_db Cons.IH TrainerController_add_trainer_outcome
        TrainerService_add_trainer_outcome)
qed

text \<open>The outcome equations of all methods, for unfolding a call through its layers.\<close>

lemmas outcomes =
  StudentRepository_add_student_outcome StudentRepository_remove_student_outcome
  StudentRepository_update_student_outcome StudentRepository_get_all_students_outcome
  StudentService_add_student_outcome StudentService_remove_student_outcome
  StudentService_update_student_outcome StudentService_get_all_students_outcome
  StudentController_add_student_outcome StudentController_remove_student_outcome
  StudentController_update_student_outcome StudentController_get_all_students_outcome
  CourseRepository_add_course_outcome CourseRepository_remove_course_outcome
  CourseRepository_update_course_outcome CourseRepository_get_all_courses_outcome
  CourseService_add_course_outcome CourseService_remove_course_outcome
  CourseService_update_course_outcome CourseService_get_all_courses_outcome
  CourseController_add_course_outcome CourseController_remove_course_outcome
  CourseController_update_course_outcome CourseController_get_all_courses_outcome
  TrainerRepository_add_trainer_outcome TrainerRepository_remove_trainer_outcome
  TrainerRepository_update_trainer_outcome TrainerRepository_get_all_trainers_outcome
  TrainerService_add_trainer_outcome TrainerService_remove_trainer_outcome
  TrainerService_update_trainer_outcome TrainerService_get_all_trainers_outcome
  TrainerController_add_trainer_outcome TrainerController_remove_trainer_outcome
  TrainerController_update_trainer_outcome TrainerController_get_all_trainers_outcome

section \<open>The claims\<close>

subsection \<open>Uniqueness of student ids\<close>

text \<open>
  Claim C1. Adding students through the service or through the controller, starting from
  the empty database, leaves at most one stored student per \<open>student_id\<close>, and each
  single add keeps the ids distinct. An add whose \<open>student_id\<close> is stored already is
  rejected: the method prints its own line, the repository's fetch line and the error
  line, so the repository's add is not called, and the database afterwards is the
  database before, with the same students in the same number.
\<close>

theorem student_ids_unique:
  "distinct (student_ids (db_of (add_students_via_service ss Database_init))) \<and>
   distinct (student_ids (db_of (add_students_via_controller ss Database_init))) \<and>
   (distinct (student_ids db) \<longrightarrow>
      distinct (student_ids (db_of (StudentService_add_student s db))) \<and>
      distinct (student_ids (db_of (StudentController_add_student s db)))) \<and>
   (student_id (attrs s) \<in> set (student_ids db) \<longrightarrow>
      StudentService_add_student s db =
        (Inr (), db,
         [''[Service] Checking if student can be added'',
          ''[Repository] Fetching all students from database'',
          ''[Service] Error: Student ID already exists.'']) \<and>
      StudentController_add_student s db =
        (Inr (), db,
         [''[Controller] Request received to add student'',
          ''[Service] Checking if student can be added'',
          ''[Repository] Fetching all students from database'',
          ''[Service] Error: Student ID already exists.'']))"
proof -
  have init: "distinct (student_ids Database_init)"
    by (simp add: student_ids_def Database_init_def)
  have seq_service: "distinct (student_ids (db_of (add_students_via_service ss Database_init)))"
    using init by (rule add_students_via_service_distinct)
  have seq_controller:
    "distinct (student_ids (db_of (add_students_via_controller ss Database_init)))"
    using init by (rule add_students_via_controller_distinct)
  have step: "distinct (student_ids db) \<longrightarrow>
      distinct (student_ids (db_of (StudentService_add_student s db))) \<and>
      distinct (student_ids (db_of (StudentController_add_student s db)))"
    by (simp add: StudentController_add_student_db StudentService_add_student_distinct)
  have rejected: "student_id (attrs s) \<in> set (student_ids db) \<longrightarrow>
      StudentService_add_student s db =
        (Inr (), db,
         [''[Service] Checking if student can be added'',
          ''[Repository] Fetching all students from database'',
          ''[Service] Error: Student ID already exists.'']) \<and>
      StudentController_add_student s db =
        (Inr (), db,
         [''[Controller] Request received to add student'',
          ''[Service] Checking if student can be added'',
          ''[Repository] Fetching all students from database'',
          ''[Service] Error: Student ID already exists.''])"
    by (simp add: StudentController_add_student_outcome StudentService_add_student_outcome
        student_id_exists_iff student_ids_def)
  from seq_service seq_controller step rejected show ?thesis by blast
qed

theorem student_ids_unique_witness:
  "distinct (student_ids main_db) \<and>
   student_id (attrs student3) \<in> set (student_ids main_db) \<and>
   db_of (StudentController_add_student student3 main_db) = main_db \<and>
   distinct (student_ids (db_of (StudentController_add_student student3 main_db))) \<and>
   distinct (student_ids
     (db_of (add_students_via_controller [student1, student2, student3] Database_init)))"
proof -
  have ids: "student_ids main_db = [1, 2]"
    by (simp add: student_ids_def main_db_def student1_def student2_def)
  have dup: "student_id (attrs student3) \<in> set (student_ids main_db)"
    by (simp add: ids student3_def)
  have uniq: "distinct (student_ids main_db)"
    by (simp add: ids)
  from dup uniq student_ids_unique [of "[student1, student2, student3]" main_db student3]
  show ?thesis by simp
qed

subsection \<open>What a duplicate add reports\<close>

text \<open>
  Claim C2, as stated: an add with a stored \<open>student_id\<close> raises an error to its caller.
  In the main program's database the add of \<open>student3\<close>, whose id is stored, raises
  nothing: it returns \<^verbatim>\<open>None\<close>, which is also what the successful add of
  \<open>student3\<close> to the empty database returns.
\<close>

theorem duplicate_add_raises_nothing:
  "student_id (attrs student3) \<in> set (student_ids main_db) \<and>
   result_of (StudentController_add_student student3 main_db) = Inr () \<and>
   result_of (StudentService_add_student student3 main_db) = Inr () \<and>
   result_of (StudentController_add_student student3 main_db) \<noteq> Inl ValueError \<and>
   result_of (StudentController_add_student student3 main_db) =
     result_of (StudentController_add_student student3 Database_init) \<and>
   students (db_of (StudentController_add_student student3 Database_init)) = [student3]"
  by (simp add: StudentController_add_student_outcome StudentService_add_student_outcome
      student_ids_def main_db_def Database_init_def student1_def student2_def student3_def)

text \<open>
  Claim C2, amended. An add with a stored \<open>student_id\<close> returns normally, with the return
  value of a successful add, at the service and at the controller; the rejection is only
  printed, as the line \<^verbatim>\<open>[Service] Error: Student ID already exists.\<close> at the end of
  the output; and the database is exactly as it was before the call.
\<close>

theorem duplicate_add_prints_and_keeps:
  "student_id (attrs s) \<in> set (student_ids db) \<Longrightarrow>
     result_of (StudentService_add_student s db) = Inr () \<and>
     result_of (StudentController_add_student s db) = Inr () \<and>
     last (output_of (StudentService_add_student s db)) =
       ''[Service] Error: Student ID already exists.'' \<and>
     last (output_of (StudentController_add_student s db)) =
       ''[Service] Error: Student ID already exists.'' \<and>
     db_of (StudentService_add_student s db) = db \<and>
     db_of (StudentController_add_student s db) = db"
  by (simp add: StudentController_add_student_outcome StudentService_add_student_outcome
      student_id_exists_iff student_ids_def)

theorem duplicate_add_prints_and_keeps_witness:
  "student_id (attrs student3) \<in> set (student_ids main_db) \<and>
   result_of (StudentController_add_student student3 main_db) = Inr () \<and>
   last (output_of (StudentController_add_student student3 main_db)) =
     ''[Service] Error: Student ID already exists.'' \<and>
   students (db_of (StudentController_add_student student3 main_db)) = [student1, student2]"
proof -
  have dup: "student_id (attrs student3) \<in> set (student_ids main_db)"
    by (simp add: student_ids_def main_db_def student1_def student2_def student3_def)
  from dup duplicate_add_prints_and_keeps [OF dup] show ?thesis
    by (simp add: main_db_def)
qed

subsection \<open>Removing an entity that is not stored\<close>

text \<open>
  Claim C3. For each entity kind and at each layer, removing an entity that no stored
  entity equals raises the \<^verbatim>\<open>ValueError\<close> of \<^verbatim>\<open>list.remove\<close> (the not-found
  error, passed up unchanged through service and controller) and leaves the database as
  it was, so the collection has the same elements in the same order.
\<close>

theorem remove_absent_raises:
  "((\<forall>y\<in>set (students db). \<not> py_eq y s) \<longrightarrow>
      result_of (StudentRepository_remove_student s db) = Inl ValueError \<and>
      db_of (StudentRepository_remove_student s db) = db \<and>
      result_of (StudentService_remove_student s db) = Inl ValueError \<and>
      db_of (StudentService_remove_student s db) = db \<and>
      result_of (StudentController_remove_student s db) = Inl ValueError \<and>
      db_of (StudentController_remove_student s db) = db) \<and>
   ((\<forall>y\<in>set (courses db). \<not> py_eq y c) \<longrightarrow>
      result_of (CourseRepository_remove_course c db) = Inl ValueError \<and>
      db_of (CourseRepository_remove_course c db) = db \<and>
      result_of (CourseService_remove_course c db) = Inl ValueError \<and>
      db_of (CourseService_remove_course c db) = db \<and>
      result_of (CourseController_remove_course c db) = Inl ValueError \<and>
      db_of (CourseController_remove_course c db) = db) \<and>
   ((\<forall>y\<in>set (trainers db). \<not> py_eq y t) \<longrightarrow>
      result_of (TrainerRepository_remove_trainer t db) = Inl ValueError \<and>
      db_of (TrainerRepository_remove_trainer t db) = db \<and>
      result_of (TrainerService_remove_trainer t db) = Inl ValueError \<and>
      db_of (TrainerService_remove_trainer t db) = db \<and>
      result_of (TrainerController_remove_trainer t db) = Inl ValueError \<and>
      db_of (TrainerController_remove_trainer t db) = db)"
  by (simp add: outcomes list_remove_absent)

theorem remove_absent_raises_witness:
  "students main_db = [student1, student2] \<and>
   \<not> py_eq student1 student3 \<and> \<not> py_eq student2 student3 \<and>
   result_of (StudentController_remove_student student3 main_db) = Inl ValueError \<and>
   students (db_of (StudentController_remove_student student3 main_db)) = [student1, student2] \<and>
   courses Database_init = [] \<and>
   result_of (CourseController_remove_course course1 Database_init) = Inl ValueError \<and>
   courses (db_of (CourseController_remove_course course1 Database_init)) = [] \<and>
   trainers main_db = [trainer1, trainer2] \<and>
   \<not> py_eq trainer1 (trainer1\<lparr>oid := 9\<rparr>) \<and> \<not> py_eq trainer2 (trainer1\<lparr>oid := 9\<rparr>) \<and>
   result_of (TrainerController_remove_trainer (trainer1\<lparr>oid := 9\<rparr>) main_db) = Inl ValueError \<and>
   trainers (db_of (TrainerController_remove_trainer (trainer1\<lparr>oid := 9\<rparr>) main_db)) =
     [trainer1, trainer2]"
proof -
  have absent_s: "\<forall>y\<in>set (students main_db). \<not> py_eq y student3"
    by (simp add: main_db_def py_eq_def student1_def student2_def student3_def)
  have absent_c: "\<forall>y\<in>set (courses Database_init). \<not> py_eq y course1"
    by (simp add: Database_init_def)
  have absent_t: "\<forall>y\<in>set (trainers main_db). \<not> py_eq y (trainer1\<lparr>oid := 9\<rparr>)"
    by (simp add: main_db_def py_eq_def trainer1_def trainer2_def)
  from absent_s absent_c absent_t
    remove_absent_raises [of main_db student3 course1 "trainer1\<lparr>oid := 9\<rparr>"]
    remove_absent_raises [of Database_init student3 course1 "trainer1\<lparr>oid := 9\<rparr>"]
  show ?thesis by (simp add: main_db_def Database_init_def)
qed

subsection \<open>Order of the stored entities\<close>

text \<open>
  Claim C4. After a sequence of adds through the controllers, starting from the empty
  database, \<^verbatim>\<open>get_all\<close> returns the successfully added entities in the order of
  their adds: every course and every trainer of the sequence, and the students that
  \<open>successfully_added\<close> keeps, which are all of them when their ids differ. A remove
  that returns has deleted the first stored entity equal to its argument, and only that
  one: the entities before it and the entities after it stay, in their order.
\<close>

theorem get_all_in_add_order:
  "result_of (StudentController_get_all_students
      (db_of (add_students_via_controller ss Database_init))) =
     Inr (successfully_added [] ss) \<and>
   (distinct (map (\<lambda>s. student_id (attrs s)) ss) \<longrightarrow>
      result_of (StudentController_get_all_students
        (db_of (add_students_via_controller ss Database_init))) = Inr ss) \<and>
   result_of (CourseController_get_all_courses
      (db_of (add_courses_via_controller cs Database_init))) = Inr cs \<and>
   result_of (TrainerController_get_all_trainers
      (db_of (add_trainers_via_controller ts Database_init))) = Inr ts \<and>
   (result_of (StudentController_remove_student s db) = Inr () \<longrightarrow>
      (\<exists>pre y post. students db = pre @ y # post \<and> py_eq y s \<and>
         (\<forall>z\<in>set pre. \<not> py_eq z s) \<and>
         students (db_of (StudentController_remove_student s db)) = pre @ post)) \<and>
   (result_of (CourseController_remove_course c db) = Inr () \<longrightarrow>
      (\<exists>pre y post. courses db = pre @ y # post \<and> py_eq y c \<and>
         (\<forall>z\<in>set pre. \<not> py_eq z c) \<and>
         courses (db_of (CourseController_remove_course c db)) = pre @ post)) \<and>
   (result_of (TrainerController_remove_trainer t db) = Inr () \<longrightarrow>
      (\<exists>pre y post. trainers db = pre @ y # post \<and> py_eq y t \<and>
         (\<forall>z\<in>set pre. \<not> py_eq z t) \<and>
         trainers (db_of (TrainerController_remove_trainer t db)) = pre @ post))"
proof -
  have students_added: "students (db_of (add_students_via_controller ss Database_init)) =
      successfully_added [] ss"
    by (simp add: add_students_via_controller_students student_ids_def Database_init_def)
  have all_students: "result_of (StudentController_get_all_students
      (db_of (add_students_via_controller ss Database_init))) = Inr (successfully_added [] ss)"
    by (simp add: StudentController_get_all_students_outcome
        StudentService_get_all_students_outcome students_added)
  have distinct_students: "distinct (map (\<lambda>s. student_id (attrs s)) ss) \<longrightarrow>
      result_of (StudentController_get_all_students
        (db_of (add_students_via_controller ss Database_init))) = Inr ss"
    by (simp add: all_students successfully_added_all)
  have all_courses: "result_of (CourseController_get_all_courses
      (db_of (add_courses_via_controller cs Database_init))) = Inr cs"
    by (simp add: CourseController_get_all_courses_outcome CourseService_get_all_courses_outcome
        add_courses_via_controller_courses Database_init_def)
  have all_trainers: "result_of (TrainerController_get_all_trainers
      (db_of (add_trainers_via_controller ts Database_init))) = Inr ts"
    by (simp add: TrainerController_get_all_trainers_outcome
        TrainerService_get_all_trainers_outcome add_trainers_via_controller_trainers
        Database_init_def)
  have remove_student: "result_of (StudentController_remove_student s db) = Inr () \<longrightarrow>
      (\<exists>pre y post. students db = pre @ y # post \<and> py_eq y s \<and>
         (\<forall>z\<in>set pre. \<not> py_eq z s) \<and>
         students (db_of (StudentController_remove_student s db)) = pre @ post)"
  proof
    assume "result_of (StudentController_remove_student s db) = Inr ()"
    then obtain ys where ys: "list_remove s (students db) = Inr ys"
      by (auto simp: outcomes split: sum.splits)
    then have "students (db_of (StudentController_remove_student s db)) = ys"
      by (simp add: outcomes)
    with list_remove_first [OF ys] show "\<exists>pre y post. students db = pre @ y # post \<and>
        py_eq y s \<and> (\<forall>z\<in>set pre. \<not> py_eq z s) \<and>
        students (db_of (StudentController_remove_student s db)) = pre @ post"
      by simp
  qed
  have remove_course: "result_of (CourseController_remove_course c db) = Inr () \<longrightarrow>
      (\<exists>pre y post. courses db = pre @ y # post \<and> py_eq y c \<and>
         (\<forall>z\<in>set pre. \<not> py_eq z c) \<and>
         courses (db_of (CourseController_remove_course c db)) = pre @ post)"
  proof
    assume "result_of (CourseController_remove_course c db) = Inr ()"
    then obtain ys where ys: "list_remove c (courses db) = Inr ys"
      by (auto simp: outcomes split: sum.splits)
    then have "courses (db_of (CourseController_remove_course c db)) = ys"
      by (simp add: outcomes)
    with list_remove_first [OF ys] show "\<exists>pre y post. courses db = pre @ y # post \<and>
        py_eq y c \<and> (\<forall>z\<in>set pre. \<not> py_eq z c) \<and>
        courses (db_of (CourseController_remove_course c db)) = pre @ post"
      by simp
  qed
  have remove_trainer: "result_of (TrainerController_remove_trainer t db) = Inr () \<longrightarrow>
      (\<exists>pre y post. trainers db = pre @ y # post \<and> py_eq y t \<and>
         (\<forall>z\<in>set pre. \<not> py_eq z t) \<and>
         trainers (db_of (TrainerController_remove_trainer t db)) = pre @ post)"
  proof
    assume "result_of (TrainerController_remove_trainer t db) = Inr ()"
    then obtain ys where ys: "list_remove t (trainers db) = Inr ys"
      by (auto simp: outcomes split: sum.splits)
    then have "trainers (db_of (TrainerController_remove_trainer t db)) = ys"
      by (simp add: outcomes)
    with list_remove_first [OF ys] show "\<exists>pre y post. trainers db = pre @ y # post \<and>
        py_eq y t \<and> (\<forall>z\<in>set pre. \<not> py_eq z t) \<and>
        trainers (db_of (TrainerController_remove_trainer t db)) = pre @ post"
      by simp
  qed
  from all_students distinct_students all_courses all_trainers
    remove_student remove_course remove_trainer
  show ?thesis by blast
qed

theorem get_all_in_add_order_witness:
  "successfully_added [] [student1, student2, student3] = [student1, student2] \<and>
   result_of (StudentController_get_all_students
      (db_of (add_students_via_controller [student1, student2, student3] Database_init))) =
     Inr [student1, student2] \<and>
   distinct (map (\<lambda>s. student_id (attrs s)) [student2, student1]) \<and>
   result_of (StudentController_get_all_students
      (db_of (add_students_via_controller [student2, student1] Database_init))) =
     Inr [student2, student1] \<and>
   result_of (TrainerController_get_all_trainers
      (db_of (add_trainers_via_controller [trainer1, trainer2] Database_init))) =
     Inr [trainer1, trainer2] \<and>
   result_of (StudentController_remove_student student1 main_db) = Inr () \<and>
   (\<exists>pre y post. students main_db = pre @ y # post \<and> py_eq y student1 \<and>
      (\<forall>z\<in>set pre. \<not> py_eq z student1) \<and>
      students (db_of (StudentController_remove_student student1 main_db)) = pre @ post) \<and>
   result_of (CourseController_remove_course course2 main_db) = Inr () \<and>
   (\<exists>pre y post. courses main_db = pre @ y # post \<and> py_eq y course2 \<and>
      (\<forall>z\<in>set pre. \<not> py_eq z course2) \<and>
      courses (db_of (CourseController_remove_course course2 main_db)) = pre @ post) \<and>
   result_of (TrainerController_remove_trainer trainer1 main_db) = Inr () \<and>
   (\<exists>pre y post. trainers main_db = pre @ y # post \<and> py_eq y trainer1 \<and>
      (\<forall>z\<in>set pre. \<not> py_eq z trainer1) \<and>
      trainers (db_of (TrainerController_remove_trainer trainer1 main_db)) = pre @ post)"
proof -
  have kept: "successfully_added [] [student1, student2, student3] = [student1, student2]"
    by (simp add: student1_def student2_def student3_def)
  have ids: "distinct (map (\<lambda>s. student_id (attrs s)) [student2, student1])"
    by (simp add: student1_def student2_def)
  have removed_s: "result_of (StudentController_remove_student student1 main_db) = Inr ()"
    by (simp add: outcomes main_db_def py_eq_def)
  have removed_c: "result_of (CourseController_remove_course course2 main_db) = Inr ()"
    by (simp add: outcomes main_db_def py_eq_def course1_def course2_def)
  have removed_t: "result_of (TrainerController_remove_trainer trainer1 main_db) = Inr ()"
    by (simp add: outcomes main_db_def py_eq_def)
  note first = get_all_in_add_order
    [of "[student1, student2, student3]" "[course1, course2]" "[trainer1, trainer2]"
      student1 main_db course2 trainer1]
  note second = get_all_in_add_order
    [of "[student2, student1]" "[course1, course2]" "[trainer1, trainer2]"
      student1 main_db course2 trainer1]
  from first kept have "result_of (StudentController_get_all_students
      (db_of (add_students_via_controller [student1, student2, student3] Database_init))) =
     Inr [student1, student2]"
    by simp
  moreover from second ids have "result_of (StudentController_get_all_students
      (db_of (add_students_via_controller [student2, student1] Database_init))) =
     Inr [student2, student1]"
    by blast
  moreover from first have "result_of (TrainerController_get_all_trainers
      (db_of (add_trainers_via_controller [trainer1, trainer2] Database_init))) =
     Inr [trainer1, trainer2]"
    by blast
  moreover from first removed_s have
    "\<exists>pre y post. students main_db = pre @ y # post \<and> py_eq y student1 \<and>
      (\<forall>z\<in>set pre. \<not> py_eq z student1) \<and>
      students (db_of (StudentController_remove_student student1 main_db)) = pre @ post"
    by blast
  moreover from first removed_c have
    "\<exists>pre y post. courses main_db = pre @ y # post \<and> py_eq y course2 \<and>
      (\<forall>z\<in>set pre. \<not> py_eq z course2) \<and>
      courses (db_of (CourseController_remove_course course2 main_db)) = pre @ post"
    by blast
  moreover from first removed_t have
    "\<exists>pre y post. trainers main_db = pre @ y # post \<and> py_eq y trainer1 \<and>
      (\<forall>z\<in>set pre. \<not> py_eq z trainer1) \<and>
      trainers (db_of (TrainerController_remove_trainer trainer1 main_db)) = pre @ post"
    by blast
  ultimately show ?thesis
    using kept ids removed_s removed_c removed_t by blast
qed

subsection \<open>The repository adds without a check\<close>

text \<open>
  Claim C5. For each entity kind the repository's add returns (it raises nothing) and
  appends the entity at the end of its list, whatever the list holds: an entity whose
  key is stored already, or the stored object itself, is appended again.
\<close>

theorem repository_add_appends:
  "StudentRepository_add_student s db =
     (Inr (), db\<lparr>students := students db @ [s]\<rparr>, [''[Repository] Adding student to database'']) \<and>
   CourseRepository_add_course c db =
     (Inr (), db\<lparr>courses := courses db @ [c]\<rparr>, [''[Repository] Adding course to database'']) \<and>
   TrainerRepository_add_trainer t db =
     (Inr (), db\<lparr>trainers := trainers db @ [t]\<rparr>, [''[Repository] Adding trainer to database'']) \<and>
   students (db_of (StudentRepository_add_student s
      (db_of (StudentRepository_add_student s db)))) = students db @ [s, s]"
  by (simp add: StudentRepository_add_student_outcome CourseRepository_add_course_outcome
      TrainerRepository_add_trainer_outcome)

subsection \<open>Courses and trainers are added without a check\<close>

text \<open>
  Claim C6. The service's add for a course and for a trainer returns and appends the
  entity, whatever is stored. So two adds, of any two courses or any two trainers and in
  particular of two with the same key, both succeed, and \<^verbatim>\<open>get_all\<close> afterwards
  returns the list with both at its end.
\<close>

theorem course_trainer_add_unchecked:
  "CourseService_add_course c db =
     (Inr (), db\<lparr>courses := courses db @ [c]\<rparr>,
      [''[Service] Adding course'', ''[Repository] Adding course to database'']) \<and>
   TrainerService_add_trainer t db =
     (Inr (), db\<lparr>trainers := trainers db @ [t]\<rparr>,
      [''[Service] Adding trainer'', ''[Repository] Adding trainer to database'']) \<and>
   result_of (CourseService_add_course c' (db_of (CourseService_add_course c db))) = Inr () \<and>
   result_of (CourseService_get_all_courses
      (db_of (CourseService_add_course c' (db_of (CourseService_add_course c db))))) =
     Inr (courses db @ [c, c']) \<and>
   result_of (TrainerService_add_trainer t' (db_of (TrainerService_add_trainer t db))) =
     Inr () \<and>
   result_of (TrainerService_get_all_trainers
      (db_of (TrainerService_add_trainer t' (db_of (TrainerService_add_trainer t db))))) =
     Inr (trainers db @ [t, t'])"
  by (simp add: CourseService_add_course_outcome TrainerService_add_trainer_outcome
      CourseService_get_all_courses_outcome TrainerService_get_all_trainers_outcome)

subsection \<open>Update changes nothing\<close>

text \<open>
  Claim C7. For each entity kind and at each layer, update returns the entity it was
  given and leaves the database as it was.
\<close>

theorem update_returns_entity:
  "result_of (StudentRepository_update_student s db) = Inr s \<and>
  db_of (StudentRepository_update_student s db) = db \<and>
   result_of (StudentService_update_student s db) = Inr s \<and>
   db_of (StudentService_update_student s db) = db \<and>
   result_of (StudentController_update_student s db) = Inr s \<and>
   db_of (StudentController_update_student s db) = db \<and>
   result_of (CourseRepository_update_course c db) = Inr c \<and>
   db_of (CourseRepository_update_course c db) = db \<and>
   result_of (CourseService_update_course c db) = Inr c \<and>
   db_of (CourseService_update_course c db) = db \<and>
   result_of (CourseController_update_course c db) = Inr c \<and>
   db_of (CourseController_update_course c db) = db \<and>
   result_of (TrainerRepository_update_trainer t db) = Inr t \<and>
   db_of (TrainerRepository_update_trainer t db) = db \<and>
   result_of (TrainerService_update_trainer t db) = Inr t \<and>
   db_of (TrainerService_update_trainer t db) = db \<and>
   result_of (TrainerController_update_trainer t db) = Inr t \<and>
   db_of (TrainerController_update_trainer t db) = db"
  by (simp add: outcomes)

subsection \<open>The controllers forward\<close>

text \<open>
  Claim C8. For each entity kind, each controller method returns what the service method
  of the same name returns (or raises what it raises) and leaves the database that the
  service method leaves. The controller adds one line of its own to the printed output,
  before the lines of the service.
\<close>

theorem controller_forwards:
  "result_of (StudentController_add_student s db) =
    result_of (StudentService_add_student s db) \<and>
   db_of (StudentController_add_student s db) = db_of (StudentService_add_student s db) \<and>
   output_of (StudentController_add_student s db) =
     ''[Controller] Request received to add student'' #
     output_of (StudentService_add_student s db) \<and>
   result_of (StudentController_remove_student s db) =
     result_of (StudentService_remove_student s db) \<and>
   db_of (StudentController_remove_student s db) = db_of (StudentService_remove_student s db) \<and>
   output_of (StudentController_remove_student s db) =
     ''[Controller] Request received to remove student'' #
     output_of (StudentService_remove_student s db) \<and>
   result_of (StudentController_update_student s db) =
     result_of (StudentService_update_student s db) \<and>
   db_of (StudentController_update_student s db) = db_of (StudentService_update_student s db) \<and>
   output_of (StudentController_update_student s db) =
     ''[Controller] Request received to update student'' #
     output_of (StudentService_update_student s db) \<and>
   result_of (StudentController_get_all_students db) =
     result_of (StudentService_get_all_students db) \<and>
   db_of (StudentController_get_all_students db) = db_of (StudentService_get_all_students db) \<and>
   output_of (StudentController_get_all_students db) =
     ''[Controller] Request received to list students'' #
     output_of (StudentService_get_all_students db) \<and>
   result_of (CourseController_add_course c db) = result_of (CourseService_add_course c db) \<and>
   db_of (CourseController_add_course c db) = db_of (CourseService_add_course c db) \<and>
   output_of (CourseController_add_course c db) =
     ''[Controller] Request received to add course'' #
     output_of (CourseService_add_course c db) \<and>
   result_of (CourseController_remove_course c db) =
     result_of (CourseService_remove_course c db) \<and>
   db_of (CourseController_remove_course c db) = db_of (CourseService_remove_course c db) \<and>
   output_of (CourseController_remove_course c db) =
     ''[Controller] Request received to remove course'' #
     output_of (CourseService_remove_course c db) \<and>
   result_of (CourseController_update_course c db) =
     result_of (CourseService_update_course c db) \<and>
   db_of (CourseController_update_course c db) = db_of (CourseService_update_course c db) \<and>
   output_of (CourseController_update_course c db) =
     ''[Controller] Request received to update course'' #
     output_of (CourseService_update_course c db) \<and>
   result_of (CourseController_get_all_courses db) =
     result_of (CourseService_get_all_courses db) \<and>
   db_of (CourseController_get_all_courses db) = db_of (CourseService_get_all_courses db) \<and>
   output_of (CourseController_get_all_courses db) =
     ''[Controller] Request received to list courses'' #
     output_of (CourseService_get_all_courses db) \<and>
   result_of (TrainerController_add_trainer t db) =
     result_of (TrainerService_add_trainer t db) \<and>
   db_of (TrainerController_add_trainer t db) = db_of (TrainerService_add_trainer t db) \<and>
   output_of (TrainerController_add_trainer t db) =
     ''[Controller] Request received to add trainer'' #
     output_of (TrainerService_add_trainer t db) \<and>
   result_of (TrainerController_remove_trainer t db) =
     result_of (TrainerService_remove_trainer t db) \<and>
   db_of (TrainerController_remove_trainer t db) = db_of (TrainerService_remove_trainer t db) \<and>
   output_of (TrainerController_remove_trainer t db) =
     ''[Controller] Request received to remove trainer'' #
     output_of (TrainerService_remove_trainer t db) \<and>
   result_of (TrainerController_update_trainer t db) =
     result_of (TrainerService_update_trainer t db) \<and>
   db_of (TrainerController_update_trainer t db) = db_of (TrainerService_update_trainer t db) \<and>
   output_of (TrainerController_update_trainer t db) =
     ''[Controller] Request received to update trainer'' #
     output_of (TrainerService_update_trainer t db) \<and>
   result_of (TrainerController_get_all_trainers db) =
     result_of (TrainerService_get_all_trainers db) \<and>
   db_of (TrainerController_get_all_trainers db) = db_of (TrainerService_get_all_trainers db) \<and>
   output_of (TrainerController_get_all_trainers db) =
     ''[Controller] Request received to list trainers'' #
     output_of (TrainerService_get_all_trainers db)"
  by (simp add: StudentController_add_student_outcome StudentController_remove_student_outcome
      StudentController_update_student_outcome StudentController_get_all_students_outcome
      CourseController_add_course_outcome CourseController_remove_course_outcome
      CourseController_update_course_outcome CourseController_get_all_courses_outcome
      TrainerController_add_trainer_outcome TrainerController_remove_trainer_outcome
      TrainerController_update_trainer_outcome TrainerController_get_all_trainers_outcome)

subsection \<open>The three collections are independent\<close>

text \<open>
  Claim C9. Every method of the student stack, at each layer, leaves the courses and the
  trainers as they were; every method of the course stack leaves the students and the
  trainers; every method of the trainer stack leaves the students and the courses.
\<close>

theorem other_collections_untouched:
  "courses (db_of (StudentRepository_add_student s db)) = courses db \<and>
   trainers (db_of (StudentRepository_add_student s db)) = trainers db \<and>
   courses (db_of (StudentRepository_remove_student s db)) = courses db \<and>
   trainers (db_of (StudentRepository_remove_student s db)) = trainers db \<and>
   courses (db_of (StudentRepository_update_student s db)) = courses db \<and>
   trainers (db_of (StudentRepository_update_student s db)) = trainers db \<and>
   courses (db_of (StudentRepository_get_all_students db)) = courses db \<and>
   trainers (db_of (StudentRepository_get_all_students db)) = trainers db \<and>
   courses (db_of (StudentService_add_student s db)) = courses db \<and>
   trainers (db_of (StudentService_add_student s db)) = trainers db \<and>
   courses (db_of (StudentService_remove_student s db)) = courses db \<and>
   trainers (db_of (StudentService_remove_student s db)) = trainers db \<and>
   courses (db_of (StudentService_update_student s db)) = courses db \<and>
   trainers (db_of (StudentService_update_student s db)) = trainers db \<and>
   courses (db_of (StudentService_get_all_students db)) = courses db \<and>
   trainers (db_of (StudentService_get_all_students db)) = trainers db \<and>
   courses (db_of (StudentController_add_student s db)) = courses db \<and>
   trainers (db_of (StudentController_add_student s db)) = trainers db \<and>
   courses (db_of (StudentController_remove_student s db)) = courses db \<and>
   trainers (db_of (StudentController_remove_student s db)) = trainers db \<and>
   courses (db_of (StudentController_update_student s db)) = courses db \<and>
   trainers (db_of (StudentController_update_student s db)) = trainers db \<and>
   courses (db_of (StudentController_get_all_students db)) = courses db \<and>
   trainers (db_of (StudentController_get_all_students db)) = trainers db \<and>
   students (db_of (CourseRepository_add_course c db)) = students db \<and>
   trainers (db_of (CourseRepository_add_course c db)) = trainers db \<and>
   students (db_of (CourseRepository_remove_course c db)) = students db \<and>
   trainers (db_of (CourseRepository_remove_course c db)) = trainers db \<and>
   students (db_of (CourseRepository_update_course c db)) = students db \<and>
   trainers (db_of (CourseRepository_update_course c db)) = trainers db \<and>
   students (db_of (CourseRepository_get_all_courses db)) = students db \<and>
   trainers (db_of (CourseRepository_get_all_courses db)) = trainers db \<and>
   students (db_of (CourseService_add_course c db)) = students db \<and>
   trainers (db_of (CourseService_add_course c db)) = trainers db \<and>
   students (db_of (CourseService_remove_course c db)) = students db \<and>
   trainers (db_of (CourseService_remove_course c db)) = trainers db \<and>
   students (db_of (CourseService_update_course c db)) = students db \<and>
   trainers (db_of (CourseService_update_course c db)) = trainers db \<and>
   students (db_of (CourseService_get_all_courses db)) = students db \<and>
   trainers (db_of (CourseService_get_all_courses db)) = trainers db \<and>
   students (db_of (CourseController_add_course c db)) = students db \<and>
   trainers (db_of (CourseController_add_course c db)) = trainers db \<and>
   students (db_of (CourseController_remove_course c db)) = students db \<and>
   trainers (db_of (CourseController_remove_course c db)) = trainers db \<and>
   students (db_of (CourseController_update_course c db)) = students db \<and>
   trainers (db_of (CourseController_update_course c db)) = trainers db \<and>
   students (db_of (CourseController_get_all_courses db)) = students db \<and>
   trainers (db_of (CourseController_get_all_courses db)) = trainers db \<and>
   students (db_of (TrainerRepository_add_trainer t db)) = students db \<and>
   courses (db_of (TrainerRepository_add_trainer t db)) = courses db \<and>
   students (db_of (TrainerRepository_remove_trainer t db)) = students db \<and>
   courses (db_of (TrainerRepository_remove_trainer t db)) = courses db \<and>
   students (db_of (TrainerRepository_update_trainer t db)) = students db \<and>
   courses (db_of (TrainerRepository_update_trainer t db)) = courses db \<and>
   students (db_of (TrainerRepository_get_all_trainers db)) = students db \<and>
   courses (db_of (TrainerRepository_get_all_trainers db)) = courses db \<and>
   students (db_of (TrainerService_add_trainer t db)) = students db \<and>
   courses (db_of (TrainerService_add_trainer t db)) = courses db \<and>
   students (db_of (TrainerService_remove_trainer t db)) = students db \<and>
   courses (db_of (TrainerService_remove_trainer t db)) = courses db \<and>
   students (db_of (TrainerService_update_trainer t db)) = students db \<and>
   courses (db_of (TrainerService_update_trainer t db)) = courses db \<and>
   students (db_of (TrainerService_get_all_trainers db)) = students db \<and>
   courses (db_of (TrainerService_get_all_trainers db)) = courses db \<and>
   students (db_of (TrainerController_add_trainer t db)) = students db \<and>
   courses (db_of (TrainerController_add_trainer t db)) = courses db \<and>
   students (db_of (TrainerController_remove_trainer t db)) = students db \<and>
   courses (db_of (TrainerController_remove_trainer t db)) = courses db \<and>
   students (db_of (TrainerController_update_trainer t db)) = students db \<and>
   courses (db_of (TrainerController_update_trainer t db)) = courses db \<and>
   students (db_of (TrainerController_get_all_trainers db)) = students db \<and>
   courses (db_of (TrainerController_get_all_trainers db)) = courses db"
  by (simp add: outcomes split: sum.splits)

subsection \<open>The duplicate check reads the id only\<close>

text \<open>
  Claim C10. Two students with the same \<open>student_id\<close>, whatever their names and e-mail
  addresses, are treated alike by the service's add in any database: the two calls
  return the same value and print the same lines, and either both leave the database
  as it was or both append their student.
\<close>

theorem duplicate_check_reads_id_only:
  "student_id (attrs s1) = student_id (attrs s2) \<Longrightarrow>
     result_of (StudentService_add_student s1 db) =
       result_of (StudentService_add_student s2 db) \<and>
     output_of (StudentService_add_student s1 db) = output_of (StudentService_add_student s2 db) \<and>
     (db_of (StudentService_add_student s1 db) = db \<and>
      db_of (StudentService_add_student s2 db) = db \<or>
      db_of (StudentService_add_student s1 db) = db\<lparr>students := students db @ [s1]\<rparr> \<and>
      db_of (StudentService_add_student s2 db) = db\<lparr>students := students db @ [s2]\<rparr>)"
  by (simp add: StudentService_add_student_outcome student_id_exists_iff)

theorem duplicate_check_reads_id_only_witness:
  "student_id (attrs student1) = student_id (attrs student3) \<and>
   Student.name (attrs student1) \<noteq> Student.name (attrs student3) \<and>
   email (attrs student1) \<noteq> email (attrs student3) \<and>
   db_of (StudentService_add_student student1 main_db) = main_db \<and>
   db_of (StudentService_add_student student3 main_db) = main_db \<and>
   students (db_of (StudentService_add_student student1 Database_init)) = [student1] \<and>
   students (db_of (StudentService_add_student student3 Database_init)) = [student3] \<and>
   output_of (StudentService_add_student student1 main_db) =
     output_of (StudentService_add_student student3 main_db)"
proof -
  have same: "student_id (attrs student1) = student_id (attrs student3)"
    by (simp add: student1_def student3_def)
  have differ: "Student.name (attrs student1) \<noteq> Student.name (attrs student3) \<and>
      email (attrs student1) \<noteq> email (attrs student3)"
    by (simp add: student1_def student3_def)
  have rejected: "db_of (StudentService_add_student student1 main_db) = main_db"
    by (simp add: StudentService_add_student_outcome main_db_def)
  have accepted: "students (db_of (StudentService_add_student student1 Database_init)) = [student1]"
    by (simp add: StudentService_add_student_outcome Database_init_def)
  from duplicate_check_reads_id_only [OF same, of main_db] rejected
  have rejected3: "db_of (StudentService_add_student student3 main_db) = main_db \<and>
      output_of (StudentService_add_student student1 main_db) =
        output_of (StudentService_add_student student3 main_db)"
    by (auto simp: main_db_def)
  from duplicate_check_reads_id_only [OF same, of Database_init] accepted
  have "students (db_of (StudentService_add_student student3 Database_init)) = [student3]"
    by (auto simp: Database_init_def)
  with same differ rejected accepted rejected3 show ?thesis by simp
qed

end
